theory Spec2Isabelle
  imports Complex_Main "HOL-Library.Char_ord" "HOL-Library.List_Lexorder" "HOL-Library.Multiset"
begin

section \<open>Python strings\<close>

text \<open>
  The program is \<^verbatim>\<open>src/ocr_app.py\<close>. A Python \<^verbatim>\<open>str\<close> is modelled as a \<^typ>\<open>string\<close>;
  a \<^typ>\<open>char\<close> stands for the code point with the same number, so the model covers text
  over the code points U+0000 .. U+00FF. The character classes below are those of Python 3
  on that range.
\<close>

definition code :: "char \<Rightarrow> nat" where
  "code c = of_char c"

definition between :: "nat \<Rightarrow> nat \<Rightarrow> nat \<Rightarrow> bool" where
  "between lo hi n = (lo \<le> n \<and> n \<le> hi)"

text \<open>\<^verbatim>\<open>str.isspace\<close>: TAB..CR, FS..US, SPACE, NEL, NBSP.\<close>

definition isspace :: "char \<Rightarrow> bool" where
  "isspace c = (between 9 13 (code c) \<or> between 28 32 (code c) \<or> code c = 133 \<or> code c = 160)"

text \<open>\<^verbatim>\<open>str.isdecimal\<close>, which is also the class \<^verbatim>\<open>\d\<close> of \<^verbatim>\<open>re\<close>.\<close>

definition isdecimal :: "char \<Rightarrow> bool" where
  "isdecimal c = between 48 57 (code c)"

definition isalpha :: "char \<Rightarrow> bool" where
  "isalpha c = (between 65 90 (code c) \<or> between 97 122 (code c) \<or> code c = 170 \<or> code c = 181
     \<or> code c = 186 \<or> between 192 214 (code c) \<or> between 216 246 (code c) \<or> between 248 255 (code c))"

text \<open>\<^verbatim>\<open>str.isnumeric\<close>: the decimal digits, the superscripts 1, 2, 3 and the vulgar fractions.\<close>

definition isnumeric :: "char \<Rightarrow> bool" where
  "isnumeric c = (isdecimal c \<or> between 178 179 (code c) \<or> code c = 185 \<or> between 188 190 (code c))"

definition isalnum :: "char \<Rightarrow> bool" where
  "isalnum c = (isalpha c \<or> isnumeric c)"

text \<open>\<^verbatim>\<open>str.lower\<close>, one character: A..Z and the capital letters of U+00C0 .. U+00DE move up by 32.\<close>

definition lower_char :: "char \<Rightarrow> char" where
  "lower_char c = (if between 65 90 (code c) \<or> between 192 214 (code c) \<or> between 216 222 (code c)
     then char_of (code c + 32) else c)"

definition lower :: "string \<Rightarrow> string" where
  "lower s = map lower_char s"

text \<open>\<^verbatim>\<open>s.strip()\<close>: leading and trailing whitespace removed.\<close>

definition strip :: "string \<Rightarrow> string" where
  "strip s = rev (dropWhile isspace (rev (dropWhile isspace s)))"

text \<open>
  \<^verbatim>\<open>s.split()\<close>: the maximal runs of non-whitespace characters, in order. The first argument
  is the token being read.
\<close>

fun split_scan :: "string \<Rightarrow> string \<Rightarrow> string list" where
  "split_scan cur [] = (if cur = [] then [] else [cur])"
| "split_scan cur (c # cs) =
     (if isspace c then (if cur = [] then split_scan [] cs else cur # split_scan [] cs)
      else split_scan (cur @ [c]) cs)"

definition split :: "string \<Rightarrow> string list" where
  "split s = split_scan [] s"

text \<open>\<^verbatim>\<open>s.split(sep)\<close> for a one-character separator: always at least one field.\<close>

fun split_on_scan :: "char \<Rightarrow> string \<Rightarrow> string \<Rightarrow> string list" where
  "split_on_scan sep cur [] = [cur]"
| "split_on_scan sep cur (c # cs) =
     (if c = sep then cur # split_on_scan sep [] cs else split_on_scan sep (cur @ [c]) cs)"

definition split_on :: "char \<Rightarrow> string \<Rightarrow> string list" where
  "split_on sep s = split_on_scan sep [] s"

definition newline :: char where
  "newline = CHR 0x0A"

text \<open>\<^verbatim>\<open>str(n)\<close> for a natural number: its decimal digits.\<close>

fun str_nat :: "nat \<Rightarrow> string" where
  "str_nat n = (if n < 10 then [char_of (48 + n)] else str_nat (n div 10) @ [char_of (48 + n mod 10)])"

declare str_nat.simps [simp del]

text \<open>\<^verbatim>\<open>str(i)\<close> for an integer.\<close>

definition str_int :: "int \<Rightarrow> string" where
  "str_int i = (if i < 0 then CHR ''-'' # str_nat (nat (- i)) else str_nat (nat i))"

text \<open>
  The specification's words for these two: the trimmed text is the slice of the text between
  its leading and its trailing whitespace, and the tokens are obtained by skipping whitespace
  and then taking the characters up to the next whitespace, again and again.
\<close>

definition trimmed :: "string \<Rightarrow> string" where
  "trimmed s =
     drop (length (takeWhile isspace s)) (take (length s - length (takeWhile isspace (rev s))) s)"

function tokens :: "string \<Rightarrow> string list" where
  "tokens s =
     (case dropWhile isspace s of
        [] \<Rightarrow> []
      | c # cs \<Rightarrow> takeWhile (\<lambda>x. \<not> isspace x) (c # cs) # tokens (dropWhile (\<lambda>x. \<not> isspace x) cs))"
  by pat_completeness auto

termination
proof (relation "measure length")
  show "wf (measure length)" by simp
next
  fix s :: string and c cs
  assume a: "dropWhile isspace s = c # cs"
  have "length (dropWhile (\<lambda>x. \<not> isspace x) cs) \<le> length cs"
    by (rule length_dropWhile_le)
  moreover have "length (c # cs) \<le> length s"
    unfolding a [symmetric] by (rule length_dropWhile_le)
  ultimately show "(dropWhile (\<lambda>x. \<not> isspace x) cs, s) \<in> measure length"
    by simp
qed

declare tokens.simps [simp del]

section \<open>Quality assessment\<close>

text \<open>
  \<^verbatim>\<open>calculate_quality_score\<close>. The score is a Python float; it is modelled as a real number.
  The subtractions of 50, 30 and 20 from 100.0 are exact in binary floating point; the two
  quotients are quotients of natural numbers, compared here as exact rationals.
\<close>

definition bool_int :: "bool \<Rightarrow> nat" where
  "bool_int b = (if b then 1 else 0)"

definition alphanumeric_ratio :: "string \<Rightarrow> real" where
  "alphanumeric_ratio text =
     real (sum_list (map (\<lambda>c. bool_int (isalnum c \<or> isspace c)) text)) / real (max (length text) 1)"

definition avg_word_length :: "string list \<Rightarrow> real" where
  "avg_word_length words = real (sum_list (map length words)) / real (length words)"

definition calculate_quality_score :: "string \<Rightarrow> real" where
  "calculate_quality_score text =
     (let score = 100;
          score = (if length (strip text) < 10 then score - 50 else score);
          score = (if alphanumeric_ratio text < 7 / 10 then score - 30 else score);
          words = split text;
          score = (if words \<noteq> []
                   then (if avg_word_length words < 2 \<or> avg_word_length words > 15
                         then score - 20 else score)
                   else score)
      in max 0 (min 100 score))"

text \<open>The three deductions, each taken alone.\<close>

definition length_deduction :: "string \<Rightarrow> real" where
  "length_deduction text = (if length (strip text) < 10 then 50 else 0)"

definition ratio_deduction :: "string \<Rightarrow> real" where
  "ratio_deduction text = (if alphanumeric_ratio text < 7 / 10 then 30 else 0)"

definition word_deduction :: "string \<Rightarrow> real" where
  "word_deduction text =
     (if split text \<noteq> [] \<and> (avg_word_length (split text) < 2 \<or> avg_word_length (split text) > 15)
      then 20 else 0)"

section \<open>Search\<close>

text \<open>\<^verbatim>\<open>s.startswith(q)\<close> and the substring test \<^verbatim>\<open>q in s\<close>.\<close>

fun startswith :: "string \<Rightarrow> string \<Rightarrow> bool" where
  "startswith s [] = True"
| "startswith [] (q # qs) = False"
| "startswith (c # cs) (q # qs) = (c = q \<and> startswith cs qs)"

fun contains :: "string \<Rightarrow> string \<Rightarrow> bool" where
  "contains q [] = (q = [])"
| "contains q (c # cs) = (startswith (c # cs) q \<or> contains q cs)"

text \<open>
  The loop of \<^verbatim>\<open>search_in_text\<close> over \<^verbatim>\<open>enumerate(lines, 1)\<close>: \<open>i\<close> is the number of the
  line at the head, \<open>matches\<close> the list built so far.
\<close>

fun search_loop :: "string \<Rightarrow> bool \<Rightarrow> nat \<Rightarrow> string list \<Rightarrow> (nat \<times> string) list \<Rightarrow> (nat \<times> string) list" where
  "search_loop query case_sensitive i [] matches = matches"
| "search_loop query case_sensitive i (line # lines) matches =
     (let search_line = (if case_sensitive then line else lower line);
          search_query = (if case_sensitive then query else lower query)
      in search_loop query case_sensitive (i + 1) lines
           (if contains search_query search_line then matches @ [(i, line)] else matches))"

definition search_in_text :: "string \<Rightarrow> string \<Rightarrow> bool \<Rightarrow> (nat \<times> string) list" where
  "search_in_text txt query case_sensitive =
     (if query = [] then []
      else search_loop query case_sensitive 1 (split_on newline txt) [])"

text \<open>
  The specification's words: a literal substring, the case policy, and the numbered lines
  that contain the query.
\<close>

definition is_substring :: "string \<Rightarrow> string \<Rightarrow> bool" where
  "is_substring q s = (\<exists>xs ys. s = xs @ q @ ys)"

definition case_policy :: "bool \<Rightarrow> string \<Rightarrow> string" where
  "case_policy case_sensitive s = (if case_sensitive then s else lower s)"

definition numbered :: "string list \<Rightarrow> (nat \<times> string) list" where
  "numbered ls = zip [1..<Suc (length ls)] ls"

fun join_lines :: "string list \<Rightarrow> string" where
  "join_lines [] = []"
| "join_lines [l] = l"
| "join_lines (l # m # ls) = l @ [newline] @ join_lines (m # ls)"

definition matching_lines :: "string \<Rightarrow> string \<Rightarrow> bool \<Rightarrow> (nat \<times> string) list" where
  "matching_lines txt query case_sensitive =
     filter (\<lambda>(i, line). is_substring (case_policy case_sensitive query) (case_policy case_sensitive line))
       (numbered (split_on newline txt))"

section \<open>Exceptions and the imaging library\<close>

text \<open>
  An exception is a value carrying its message \<^verbatim>\<open>str(e)\<close>; only instances of
  \<^verbatim>\<open>Exception\<close> are modelled, the ones \<^verbatim>\<open>except Exception\<close> catches. A call that may
  raise returns a sum, \<open>Inl\<close> the exception.
\<close>

datatype exn = Exception string

fun str_exn :: "exn \<Rightarrow> string" where
  "str_exn (Exception msg) = msg"

text \<open>
  The calls into Pillow that \<^verbatim>\<open>preprocess_image\<close> makes; the library is not part of the
  program and is a parameter of the model.
\<close>

record ('img, 'enh) pil =
  image_convert :: "'img \<Rightarrow> string \<Rightarrow> exn + 'img"
  Contrast :: "'img \<Rightarrow> exn + 'enh"
  Sharpness :: "'img \<Rightarrow> exn + 'enh"
  enhancer_enhance :: "'enh \<Rightarrow> real \<Rightarrow> exn + 'img"
  image_filter_median :: "'img \<Rightarrow> nat \<Rightarrow> exn + 'img"

text \<open>
  \<^verbatim>\<open>preprocess_image\<close>. The variable \<^verbatim>\<open>image\<close> is rebound after each call that returns;
  the handler returns its value at the time of the raise. The result is a sum so that an
  exception leaving the function would be a value \<open>Inl\<close>.
\<close>

definition preprocess_image :: "('img, 'enh) pil \<Rightarrow> 'img \<Rightarrow> bool \<Rightarrow> bool \<Rightarrow> exn + 'img" where
  "preprocess_image lib img enhance denoise =
     (if enhance then
        (case image_convert lib img ''L'' of
           Inl e \<Rightarrow> Inr img
         | Inr img1 \<Rightarrow>
        (case Contrast lib img1 of
           Inl e \<Rightarrow> Inr img1
         | Inr enhancer \<Rightarrow>
        (case enhancer_enhance lib enhancer 2 of
           Inl e \<Rightarrow> Inr img1
         | Inr img2 \<Rightarrow>
        (case Sharpness lib img2 of
           Inl e \<Rightarrow> Inr img2
         | Inr enhancer \<Rightarrow>
        (case enhancer_enhance lib enhancer (3 / 2) of
           Inl e \<Rightarrow> Inr img2
         | Inr img3 \<Rightarrow>
        (if denoise then
           (case image_filter_median lib img3 3 of
              Inl e \<Rightarrow> Inr img3
            | Inr img4 \<Rightarrow> Inr img4)
         else Inr img3))))))
      else Inr img)"

text \<open>
  The specification's words: the transformation steps in order, and the image obtained by
  running them until one fails.
\<close>

definition grayscale_step :: "('img, 'enh) pil \<Rightarrow> 'img \<Rightarrow> exn + 'img" where
  "grayscale_step lib img = image_convert lib img ''L''"

definition contrast_step :: "('img, 'enh) pil \<Rightarrow> 'img \<Rightarrow> exn + 'img" where
  "contrast_step lib img =
     (case Contrast lib img of Inl e \<Rightarrow> Inl e | Inr enhancer \<Rightarrow> enhancer_enhance lib enhancer 2)"

definition sharpness_step :: "('img, 'enh) pil \<Rightarrow> 'img \<Rightarrow> exn + 'img" where
  "sharpness_step lib img =
     (case Sharpness lib img of Inl e \<Rightarrow> Inl e | Inr enhancer \<Rightarrow> enhancer_enhance lib enhancer (3 / 2))"

definition median_step :: "('img, 'enh) pil \<Rightarrow> 'img \<Rightarrow> exn + 'img" where
  "median_step lib img = image_filter_median lib img 3"

definition transformation_steps :: "('img, 'enh) pil \<Rightarrow> bool \<Rightarrow> ('img \<Rightarrow> exn + 'img) list" where
  "transformation_steps lib denoise =
     [grayscale_step lib, contrast_step lib, sharpness_step lib] @ (if denoise then [median_step lib] else [])"

fun best_so_far :: "('img \<Rightarrow> exn + 'img) list \<Rightarrow> 'img \<Rightarrow> 'img" where
  "best_so_far [] img = img"
| "best_so_far (step # steps) img =
     (case step img of Inl e \<Rightarrow> img | Inr img' \<Rightarrow> best_so_far steps img')"

section \<open>The OCR invoker\<close>

text \<open>
  The rasterizer \<^verbatim>\<open>pdf2image.convert_from_bytes\<close> and the engine
  \<^verbatim>\<open>pytesseract.image_to_string\<close> are parameters as well.
\<close>

record ('pdf, 'img) ocr =
  convert_from_bytes :: "'pdf \<Rightarrow> nat \<Rightarrow> string \<Rightarrow> exn + 'img list"
  image_to_string :: "'img \<Rightarrow> string \<Rightarrow> string \<Rightarrow> exn + string"

definition rule60 :: string where
  "rule60 = replicate 60 (CHR ''='')"

text \<open>The two f-strings, for the 0-based page index \<open>idx\<close>.\<close>

definition page_banner :: "nat \<Rightarrow> string" where
  "page_banner idx =
     [newline] @ rule60 @ [newline] @ ''PAGE '' @ str_nat (idx + 1) @ [newline] @ rule60 @ [newline, newline]"

definition error_banner :: "nat \<Rightarrow> string" where
  "error_banner idx =
     [newline] @ rule60 @ [newline] @ ''PAGE '' @ str_nat (idx + 1) @ '' - ERROR'' @ [newline] @ rule60
       @ [newline, newline]"

definition custom_config :: "nat \<Rightarrow> string" where
  "custom_config psm_mode = ''--oem 3 --psm '' @ str_nat psm_mode"

text \<open>
  The loop over \<^verbatim>\<open>enumerate(images)\<close>. An exception of the preprocessing is not inside the
  inner \<^verbatim>\<open>try\<close> and leaves the loop; one of the engine is caught there.
\<close>

fun process_pages ::
  "('img, 'enh) pil \<Rightarrow> ('pdf, 'img) ocr \<Rightarrow> string \<Rightarrow> string \<Rightarrow> bool \<Rightarrow> bool \<Rightarrow> nat \<Rightarrow> 'img list \<Rightarrow> string
     \<Rightarrow> exn + string" where
  "process_pages lib eng ocr_lang config enhance denoise idx [] extracted_text = Inr extracted_text"
| "process_pages lib eng ocr_lang config enhance denoise idx (img # images) extracted_text =
     (case (if enhance then preprocess_image lib img True denoise else Inr img) of
        Inl e \<Rightarrow> Inl e
      | Inr img' \<Rightarrow>
          (case image_to_string eng img' ocr_lang config of
             Inr page_text \<Rightarrow>
               process_pages lib eng ocr_lang config enhance denoise (idx + 1) images
                 (extracted_text @ page_banner idx @ strip page_text @ [newline, newline])
           | Inl e \<Rightarrow>
               process_pages lib eng ocr_lang config enhance denoise (idx + 1) images
                 (extracted_text @ error_banner idx)))"

definition extract_text_from_pdf ::
  "('img, 'enh) pil \<Rightarrow> ('pdf, 'img) ocr \<Rightarrow> 'pdf \<Rightarrow> string \<Rightarrow> nat \<Rightarrow> nat \<Rightarrow> bool \<Rightarrow> bool
     \<Rightarrow> string \<times> nat \<times> string option" where
  "extract_text_from_pdf lib eng pdf_bytes ocr_lang dpi psm_mode enhance denoise =
     (case convert_from_bytes eng pdf_bytes dpi ''jpeg'' of
        Inl e \<Rightarrow> ([], 0, Some (str_exn e))
      | Inr images \<Rightarrow>
          (case process_pages lib eng ocr_lang (custom_config psm_mode) enhance denoise 0 images [] of
             Inl e \<Rightarrow> ([], 0, Some (str_exn e))
           | Inr extracted_text \<Rightarrow> (extracted_text, length images, None)))"

text \<open>
  The specification's words: the image the engine sees, and the block of text one page
  contributes.
\<close>

definition prepared :: "('img, 'enh) pil \<Rightarrow> bool \<Rightarrow> bool \<Rightarrow> 'img \<Rightarrow> 'img" where
  "prepared lib enhance denoise img =
     (if enhance then best_so_far (transformation_steps lib denoise) img else img)"

definition page_block ::
  "('img, 'enh) pil \<Rightarrow> ('pdf, 'img) ocr \<Rightarrow> string \<Rightarrow> string \<Rightarrow> bool \<Rightarrow> bool \<Rightarrow> nat \<times> 'img \<Rightarrow> string" where
  "page_block lib eng ocr_lang config enhance denoise p =
     (case image_to_string eng (prepared lib enhance denoise (snd p)) ocr_lang config of
        Inr page_text \<Rightarrow> page_banner (fst p) @ strip page_text @ [newline, newline]
      | Inl e \<Rightarrow> error_banner (fst p))"

text \<open>
  The block of text the specification expects for one page, written out character by
  character: a line feed, a rule of sixty equals signs, the title line, the rule again and
  an empty line; after the banner of a recognized page come the trimmed text and an empty
  line. The title is the word PAGE and the page number, counted from 1, followed by the
  word ERROR when the engine raised.
\<close>

definition delimiter_banner :: "string \<Rightarrow> string" where
  "delimiter_banner title =
     CHR 0x0A # replicate 60 (CHR ''='') @ CHR 0x0A # title @ CHR 0x0A # replicate 60 (CHR ''='')
       @ [CHR 0x0A, CHR 0x0A]"

definition expected_block :: "nat \<Rightarrow> exn + string \<Rightarrow> string" where
  "expected_block page_number outcome =
     (case outcome of
        Inr page_text \<Rightarrow>
          delimiter_banner (''PAGE '' @ str_nat page_number) @ trimmed page_text @ [CHR 0x0A, CHR 0x0A]
      | Inl e \<Rightarrow> delimiter_banner (''PAGE '' @ str_nat page_number @ '' - ERROR''))"

section \<open>The history store\<close>

text \<open>
  The Python values the program binds to SQL parameters and reads back: \<^verbatim>\<open>None\<close>, a
  \<^verbatim>\<open>bool\<close>, an \<^verbatim>\<open>int\<close>, a finite \<^verbatim>\<open>float\<close> (stored and returned, never computed with, and
  modelled as a real number), a \<^verbatim>\<open>str\<close>, and a value of a type for which \<^verbatim>\<open>sqlite3\<close> has
  no adapter, such as a list.
\<close>

datatype pyval = PyNone | PyBool bool | PyInt int | PyFloat real | PyStr string | PyOther

text \<open>\<^verbatim>\<open>d.get(k, default)\<close>.\<close>

definition dict_get :: "(string \<rightharpoonup> pyval) \<Rightarrow> string \<Rightarrow> pyval \<Rightarrow> pyval" where
  "dict_get d k dflt = (case d k of None \<Rightarrow> dflt | Some v \<Rightarrow> v)"

text \<open>The values SQLite stores, by storage class.\<close>

datatype sqlval = SqlNull | SqlInteger int | SqlReal real | SqlText string

text \<open>
  Binding a parameter. \<^verbatim>\<open>sqlite3\<close> raises \<^verbatim>\<open>OverflowError\<close> for an \<^verbatim>\<open>int\<close> outside the
  signed 64-bit range and an error for a type without an adapter; \<open>None\<close> stands for the
  exception. A \<^verbatim>\<open>bool\<close> is bound as the integer 1 or 0.
\<close>

definition in_int64 :: "int \<Rightarrow> bool" where
  "in_int64 i = (- (2 ^ 63) \<le> i \<and> i < 2 ^ 63)"

fun bind_parameter :: "pyval \<Rightarrow> sqlval option" where
  "bind_parameter PyNone = Some SqlNull"
| "bind_parameter (PyBool b) = Some (SqlInteger (if b then 1 else 0))"
| "bind_parameter (PyInt i) = (if in_int64 i then Some (SqlInteger i) else None)"
| "bind_parameter (PyFloat x) = Some (SqlReal x)"
| "bind_parameter (PyStr s) = Some (SqlText s)"
| "bind_parameter PyOther = None"

fun bind_parameters :: "pyval list \<Rightarrow> sqlval list option" where
  "bind_parameters [] = Some []"
| "bind_parameters (p # ps) =
     (case bind_parameter p of
        None \<Rightarrow> None
      | Some v \<Rightarrow> (case bind_parameters ps of None \<Rightarrow> None | Some vs \<Rightarrow> Some (v # vs)))"


text \<open>
  The conversions of SQLite between text and numbers are parameters: the number that a text
  holding a well-formed numeric literal denotes, and the text that renders a real number.
\<close>

record sqlite =
  numeric_literal :: "string \<Rightarrow> sqlval option"
  real_text :: "real \<Rightarrow> string"

text \<open>
  The column affinities of \<^verbatim>\<open>CREATE TABLE\<close> in \<^verbatim>\<open>init_database\<close>. An \<^verbatim>\<open>INTEGER\<close> column
  turns a real number that is an integer of the 64-bit range into that integer, and a text
  that is a numeric literal into its number; a \<^verbatim>\<open>REAL\<close> column turns an integer into a real
  number, and a numeric text likewise; a \<^verbatim>\<open>TEXT\<close> column turns a number into its text.
\<close>

definition real_to_integer :: "real \<Rightarrow> sqlval" where
  "real_to_integer x = (if x = of_int \<lfloor>x\<rfloor> \<and> in_int64 \<lfloor>x\<rfloor> then SqlInteger \<lfloor>x\<rfloor> else SqlReal x)"

fun integer_affinity :: "sqlite \<Rightarrow> sqlval \<Rightarrow> sqlval" where
  "integer_affinity lib SqlNull = SqlNull"
| "integer_affinity lib (SqlInteger i) = SqlInteger i"
| "integer_affinity lib (SqlReal x) = real_to_integer x"
| "integer_affinity lib (SqlText s) =
     (case numeric_literal lib s of
        Some (SqlInteger i) \<Rightarrow> SqlInteger i
      | Some (SqlReal x) \<Rightarrow> real_to_integer x
      | _ \<Rightarrow> SqlText s)"

fun real_affinity :: "sqlite \<Rightarrow> sqlval \<Rightarrow> sqlval" where
  "real_affinity lib SqlNull = SqlNull"
| "real_affinity lib (SqlInteger i) = SqlReal (of_int i)"
| "real_affinity lib (SqlReal x) = SqlReal x"
| "real_affinity lib (SqlText s) =
     (case numeric_literal lib s of
        Some (SqlInteger i) \<Rightarrow> SqlReal (of_int i)
      | Some (SqlReal x) \<Rightarrow> SqlReal x
      | _ \<Rightarrow> SqlText s)"

fun text_affinity :: "sqlite \<Rightarrow> sqlval \<Rightarrow> sqlval" where
  "text_affinity lib SqlNull = SqlNull"
| "text_affinity lib (SqlInteger i) = SqlText (str_int i)"
| "text_affinity lib (SqlReal x) = SqlText (real_text lib x)"
| "text_affinity lib (SqlText s) = SqlText s"

text \<open>
  A row of the table \<^verbatim>\<open>extractions\<close>. The timestamp is always bound to the string
  \<^verbatim>\<open>datetime.now().isoformat()\<close>, which its \<^verbatim>\<open>TEXT\<close> column keeps.
\<close>

record extraction =
  row_id :: nat
  filename :: sqlval
  timestamp :: string
  page_count :: sqlval
  word_count :: sqlval
  character_count :: sqlval
  language :: sqlval
  extracted_text :: sqlval
  processing_time :: sqlval
  quality_score :: sqlval

text \<open>
  The database: the rows in the order of their identifiers, and the counter that
  \<^verbatim>\<open>AUTOINCREMENT\<close> keeps, the largest identifier ever assigned. A new row gets an
  identifier larger than the counter and than every identifier in the table.
\<close>

record database =
  extractions :: "extraction list"
  sequence :: nat

definition empty_database :: database where
  "empty_database = \<lparr>extractions = [], sequence = 0\<rparr>"

definition next_id :: "database \<Rightarrow> nat" where
  "next_id db = Suc (max (sequence db) (fold max (map row_id (extractions db)) 0))"

text \<open>
  The row of the \<^verbatim>\<open>INSERT\<close> for the bound values of the eight other parameters, in the
  order of the statement: \<^verbatim>\<open>filename\<close>, \<^verbatim>\<open>page_count\<close>, \<^verbatim>\<open>word_count\<close>,
  \<^verbatim>\<open>character_count\<close>, \<^verbatim>\<open>language\<close>, \<^verbatim>\<open>extracted_text\<close>, \<^verbatim>\<open>processing_time\<close>,
  \<^verbatim>\<open>quality_score\<close>.
\<close>

definition new_row :: "sqlite \<Rightarrow> nat \<Rightarrow> string \<Rightarrow> sqlval list \<Rightarrow> extraction" where
  "new_row lib i now vs =
     \<lparr>row_id = i,
      filename = text_affinity lib (vs ! 0),
      timestamp = now,
      page_count = integer_affinity lib (vs ! 1),
      word_count = integer_affinity lib (vs ! 2),
      character_count = integer_affinity lib (vs ! 3),
      language = text_affinity lib (vs ! 4),
      extracted_text = text_affinity lib (vs ! 5),
      processing_time = real_affinity lib (vs ! 6),
      quality_score = real_affinity lib (vs ! 7)\<rparr>"

text \<open>
  The \<^verbatim>\<open>INSERT\<close> fails, and changes nothing, when the file name is \<^verbatim>\<open>NULL\<close> (the column is
  \<^verbatim>\<open>NOT NULL\<close>) or when no identifier of the signed 64-bit range is left.
\<close>

definition insert_extraction :: "sqlite \<Rightarrow> database \<Rightarrow> string \<Rightarrow> sqlval list \<Rightarrow> database option" where
  "insert_extraction lib db now vs =
     (if filename (new_row lib (next_id db) now vs) = SqlNull then None
      else if 2 ^ 63 \<le> next_id db then None
      else Some \<lparr>extractions = extractions db @ [new_row lib (next_id db) now vs],
                 sequence = next_id db\<rparr>)"

text \<open>
  \<^verbatim>\<open>save_to_database\<close>. The connection is \<open>None\<close> when \<^verbatim>\<open>init_database\<close> failed; the
  call \<^verbatim>\<open>conn.cursor()\<close> then raises. The argument \<open>now\<close> is
  \<^verbatim>\<open>datetime.now().isoformat()\<close>. Every exception is caught: the function returns
  \<^verbatim>\<open>False\<close> and the table is as before.
\<close>

definition save_to_database ::
  "sqlite \<Rightarrow> database option \<Rightarrow> string \<Rightarrow> pyval \<Rightarrow> pyval \<Rightarrow> (string \<rightharpoonup> pyval)
     \<Rightarrow> bool \<times> database option" where
  "save_to_database lib conn now fname txt metadata =
     (case conn of
        None \<Rightarrow> (False, None)
      | Some db \<Rightarrow>
          (case bind_parameters
                  [fname,
                   dict_get metadata ''page_count'' (PyInt 0),
                   dict_get metadata ''word_count'' (PyInt 0),
                   dict_get metadata ''character_count'' (PyInt 0),
                   dict_get metadata ''language'' (PyStr ''eng''),
                   txt,
                   dict_get metadata ''processing_time'' (PyInt 0),
                   dict_get metadata ''quality_score'' (PyInt 0)] of
             None \<Rightarrow> (False, Some db)
           | Some vs \<Rightarrow>
               (case insert_extraction lib db now vs of
                  None \<Rightarrow> (False, Some db)
                | Some db' \<Rightarrow> (True, Some db'))))"

text \<open>
  The statements of the history mode. The listing is
  \<^verbatim>\<open>SELECT id, filename, timestamp, page_count, word_count, character_count, language,
  quality_score FROM extractions ORDER BY timestamp DESC\<close>: the rows are read in the order
  of their identifiers and sorted by timestamp, the largest first (text compared by code
  points, as the binary collation does), rows with the same timestamp staying in the order
  read. The others are \<^verbatim>\<open>SELECT * FROM extractions WHERE id = ?\<close> with \<^verbatim>\<open>fetchone\<close>,
  \<^verbatim>\<open>DELETE FROM extractions WHERE id = ?\<close> and \<^verbatim>\<open>DELETE FROM extractions\<close>.
\<close>

type_synonym summary = "nat \<times> pyval \<times> string \<times> pyval \<times> pyval \<times> pyval \<times> pyval \<times> pyval"








text \<open>
  Saving a list of records one after the other, each given by its time, file name, text and
  metadata: the values returned, and the connection afterwards.
\<close>

type_synonym saved = "string \<times> pyval \<times> pyval \<times> (string \<rightharpoonup> pyval)"







text \<open>
  The row expected for the \<open>k\<close>-th record saved, as the listing and as the lookup return
  it: the values given, with 0 for an absent count, \<^verbatim>\<open>eng\<close> for an absent language and 0.0
  for an absent processing time or quality score.
\<close>

definition given_or :: "pyval \<Rightarrow> pyval option \<Rightarrow> pyval" where
  "given_or dflt v = (case v of None \<Rightarrow> dflt | Some x \<Rightarrow> x)"

definition expected_summary :: "nat \<times> saved \<Rightarrow> summary" where
  "expected_summary p =
     (case p of (k, now, fname, txt, metadata) \<Rightarrow>
        (k, fname, now,
         given_or (PyInt 0) (metadata ''page_count''),
         given_or (PyInt 0) (metadata ''word_count''),
         given_or (PyInt 0) (metadata ''character_count''),
         given_or (PyStr ''eng'') (metadata ''language''),
         given_or (PyFloat 0) (metadata ''quality_score'')))"







section \<open>Regular expressions\<close>

text \<open>
  The patterns of \<^verbatim>\<open>extract_key_data\<close> are built from these constructs: the empty pattern,
  one character of a class, concatenation, the greedy \<^verbatim>\<open>?\<close> and \<^verbatim>\<open>*\<close>, the word boundary
  \<^verbatim>\<open>\b\<close> and a capturing group.
\<close>

datatype regex =
    Eps
  | Chr "char \<Rightarrow> bool"
  | Seq regex regex
  | Opt regex
  | Star regex
  | Boundary
  | Group regex

text \<open>
  A matcher state is the position reached in the text and the span captured by the group,
  if any.
\<close>

type_synonym span = "nat \<times> nat"
type_synonym mstate = "nat \<times> span option"

text \<open>The class \<^verbatim>\<open>\w\<close> and the boundary test of \<^verbatim>\<open>\b\<close> at position \<open>i\<close>.\<close>

definition isword :: "char \<Rightarrow> bool" where
  "isword c = (isalnum c \<or> c = CHR ''_'')"

definition word_at :: "string \<Rightarrow> nat \<Rightarrow> bool" where
  "word_at s i = (i < length s \<and> isword (s ! i))"

definition at_boundary :: "string \<Rightarrow> nat \<Rightarrow> bool" where
  "at_boundary s i = ((0 < i \<and> word_at s (i - 1)) \<noteq> word_at s i)"

text \<open>
  The backtracking matcher of \<^verbatim>\<open>re\<close>: all the ways a pattern can match from a state, in
  the order in which the engine tries them (a greedy construct tries the longer match
  first). An iteration of \<^verbatim>\<open>*\<close> that consumes nothing is not repeated.
\<close>

function rmatch :: "regex \<Rightarrow> string \<Rightarrow> mstate \<Rightarrow> mstate list" where
  "rmatch Eps s st = [st]"
| "rmatch (Chr P) s (i, g) = (if i < length s \<and> P (s ! i) then [(Suc i, g)] else [])"
| "rmatch (Seq a b) s st = concat (map (rmatch b s) (rmatch a s st))"
| "rmatch (Opt a) s st = rmatch a s st @ [st]"
| "rmatch (Star a) s st =
     concat (map (\<lambda>st'. if fst st < fst st' \<and> fst st' \<le> length s then rmatch (Star a) s st' else [])
       (rmatch a s st)) @ [st]"
| "rmatch Boundary s (i, g) = (if at_boundary s i then [(i, g)] else [])"
| "rmatch (Group a) s (i, g) = map (\<lambda>st'. (fst st', Some (i, fst st'))) (rmatch a s (i, g))"
  by pat_completeness auto
termination
  by (relation "measures [\<lambda>(r, s, st). size r, \<lambda>(r, s, st). length s - fst st]") auto

text \<open>
  The scan of \<^verbatim>\<open>re.findall\<close> from position \<open>i\<close>: at each position the first way the
  pattern matches, if there is one, then on from the end of that match (from the next
  position after an empty match). An occurrence is its start and the state reached.
\<close>

function findall_from :: "regex \<Rightarrow> string \<Rightarrow> nat \<Rightarrow> (nat \<times> mstate) list" where
  "findall_from r s i =
     (if length s < i then []
      else (case rmatch r s (i, None) of
              [] \<Rightarrow> findall_from r s (Suc i)
            | m # _ \<Rightarrow> (i, m) # findall_from r s (if i < fst m then fst m else Suc i)))"
  by pat_completeness auto
termination
  by (relation "measure (\<lambda>(r, s, i). Suc (length s) - i)") auto

declare findall_from.simps [simp del]
declare rmatch.simps(5) [simp del]

text \<open>
  \<^verbatim>\<open>re.findall\<close> returns the text of the group for a pattern with one group, and the whole
  match for a pattern without.
\<close>

fun has_group :: "regex \<Rightarrow> bool" where
  "has_group Eps = False"
| "has_group (Chr P) = False"
| "has_group (Seq a b) = (has_group a \<or> has_group b)"
| "has_group (Opt a) = has_group a"
| "has_group (Star a) = has_group a"
| "has_group Boundary = False"
| "has_group (Group a) = True"

definition slice :: "string \<Rightarrow> nat \<Rightarrow> nat \<Rightarrow> string" where
  "slice s i j = take (j - i) (drop i s)"

definition match_text :: "regex \<Rightarrow> string \<Rightarrow> nat \<times> mstate \<Rightarrow> string" where
  "match_text r s m =
     (if has_group r then (case snd (snd m) of None \<Rightarrow> [] | Some (a, b) \<Rightarrow> slice s a b)
      else slice s (fst m) (fst (snd m)))"

definition findall :: "regex \<Rightarrow> string \<Rightarrow> string list" where
  "findall r s = map (match_text r s) (findall_from r s 0)"

text \<open>
  Concatenation of several patterns and the bounded repetitions \<^verbatim>\<open>{n}\<close>, \<^verbatim>\<open>{m,n}\<close>,
  \<^verbatim>\<open>{n,}\<close> and \<^verbatim>\<open>+\<close>, greedy.
\<close>

definition seqs :: "regex list \<Rightarrow> regex" where
  "seqs rs = foldr Seq rs Eps"

definition Exactly :: "nat \<Rightarrow> regex \<Rightarrow> regex" where
  "Exactly n r = seqs (replicate n r)"

fun UpTo :: "nat \<Rightarrow> regex \<Rightarrow> regex" where
  "UpTo 0 r = Eps"
| "UpTo (Suc n) r = Opt (Seq r (UpTo n r))"

definition FromTo :: "nat \<Rightarrow> nat \<Rightarrow> regex \<Rightarrow> regex" where
  "FromTo m n r = Seq (Exactly m r) (UpTo (n - m) r)"

definition AtLeast :: "nat \<Rightarrow> regex \<Rightarrow> regex" where
  "AtLeast n r = Seq (Exactly n r) (Star r)"

definition OneOrMore :: "regex \<Rightarrow> regex" where
  "OneOrMore r = AtLeast 1 r"

definition lit :: "char \<Rightarrow> regex" where
  "lit c = Chr (\<lambda>x. x = c)"

definition one_of :: "string \<Rightarrow> regex" where
  "one_of cs = Chr (\<lambda>x. x \<in> set cs)"

definition in_range :: "char \<Rightarrow> char \<Rightarrow> char \<Rightarrow> bool" where
  "in_range lo hi c = (code lo \<le> code c \<and> code c \<le> code hi)"

definition digit :: regex where
  "digit = Chr isdecimal"

text \<open>
  The four patterns:
  \<^verbatim>\<open>\b[A-Za-z0-9._%+-]+@[A-Za-z0-9.-]+\.[A-Z|a-z]{2,}\b\<close>,
  \<^verbatim>\<open>\b\d{3}[-.]?\d{3}[-.]?\d{4}\b\<close>,
  \<^verbatim>\<open>\d{1,2}[-/]\d{1,2}[-/]\d{2,4}\<close> and
  \<^verbatim>\<open>\$\s*(\d{1,3}(?:,\d{3})*(?:\.\d{2})?)\<close>.
\<close>

definition email_re :: regex where
  "email_re = seqs [Boundary,
     OneOrMore (Chr (\<lambda>c. in_range CHR ''A'' CHR ''Z'' c \<or> in_range CHR ''a'' CHR ''z'' c \<or> in_range CHR ''0'' CHR ''9'' c
                   \<or> c \<in> set ''._%+-'')),
     lit CHR ''@'',
     OneOrMore (Chr (\<lambda>c. in_range CHR ''A'' CHR ''Z'' c \<or> in_range CHR ''a'' CHR ''z'' c \<or> in_range CHR ''0'' CHR ''9'' c
                   \<or> c \<in> set ''.-'')),
     lit CHR ''.'',
     AtLeast 2 (Chr (\<lambda>c. in_range CHR ''A'' CHR ''Z'' c \<or> c = CHR ''|'' \<or> in_range CHR ''a'' CHR ''z'' c)),
     Boundary]"

definition phone_re :: regex where
  "phone_re = seqs [Boundary, Exactly 3 digit, Opt (one_of ''-.''), Exactly 3 digit, Opt (one_of ''-.''),
     Exactly 4 digit, Boundary]"

definition date_re :: regex where
  "date_re = seqs [FromTo 1 2 digit, one_of ''-/'', FromTo 1 2 digit, one_of ''-/'', FromTo 2 4 digit]"

definition amount_re :: regex where
  "amount_re = seqs [lit CHR ''$'', Star (Chr isspace),
     Group (seqs [FromTo 1 3 digit, Star (Seq (lit CHR '','') (Exactly 3 digit)),
                  Opt (Seq (lit CHR ''.'') (Exactly 2 digit))])]"


section \<open>Entity extraction\<close>

text \<open>The specification's words: a category is absent without a match and capped otherwise.\<close>

definition capped :: "nat \<Rightarrow> string list \<Rightarrow> string list option" where
  "capped n ms = (if ms = [] then None else Some (take n ms))"

text \<open>\<^verbatim>\<open>extract_key_data\<close>; the dictionary is a map from the category to its list.\<close>

definition extract_key_data :: "string \<Rightarrow> (string \<rightharpoonup> string list)" where
  "extract_key_data txt =
     (let data = Map.empty;
          emails = findall email_re txt;
          data = (if emails \<noteq> [] then data(''Emails'' \<mapsto> take 3 emails) else data);
          phones = findall phone_re txt;
          data = (if phones \<noteq> [] then data(''Phones'' \<mapsto> take 3 phones) else data);
          dates = findall date_re txt;
          data = (if dates \<noteq> [] then data(''Dates'' \<mapsto> take 3 dates) else data);
          amounts = findall amount_re txt;
          data = (if amounts \<noteq> [] then data(''Amounts'' \<mapsto> take 5 amounts) else data)
      in data)"

text \<open>
  Occurrences in order of appearance: each starts after the start of, and not before the end
  of, every earlier one.
\<close>

definition in_order_of_appearance :: "(nat \<times> mstate) list \<Rightarrow> bool" where
  "in_order_of_appearance ms = sorted_wrt (\<lambda>a b. fst a < fst b \<and> fst (snd a) \<le> fst b) ms"

text \<open>The least number of characters a match of a pattern consumes.\<close>

fun min_len :: "regex \<Rightarrow> nat" where
  "min_len Eps = 0"
| "min_len (Chr P) = 1"
| "min_len (Seq a b) = min_len a + min_len b"
| "min_len (Opt a) = 0"
| "min_len (Star a) = 0"
| "min_len Boundary = 0"
| "min_len (Group a) = min_len a"

section \<open>JSON export\<close>

text \<open>
  The values \<^verbatim>\<open>json.dumps\<close> serializes: \<^verbatim>\<open>None\<close>, booleans, integers, floats, strings,
  lists and dictionaries with string keys, a dictionary as the list of its items in insertion
  order. A finite float is represented by its \<^verbatim>\<open>repr\<close>, the decimal token that
  \<^verbatim>\<open>json.dumps\<close> writes and from which \<^verbatim>\<open>float\<close> gives the same float back.
\<close>

datatype json =
    JNull
  | JBool bool
  | JInt int
  | JFloat string
  | JStr string
  | JList "json list"
  | JDict "(string \<times> json) list"

text \<open>
  The string encoder of \<^verbatim>\<open>json\<close> with \<^verbatim>\<open>ensure_ascii\<close>: the quote, the backslash and the
  control characters with a short escape are escaped so, the other characters outside the
  range from space to tilde as \<^verbatim>\<open>\u00XX\<close>.
\<close>

definition hex_digit :: "nat \<Rightarrow> char" where
  "hex_digit d = (if d < 10 then char_of (48 + d) else char_of (87 + d))"

definition backslash :: char where
  "backslash = CHR 0x5C"

definition dquote :: char where
  "dquote = CHR 0x22"

definition escape_char :: "char \<Rightarrow> string" where
  "escape_char c =
     (if c = dquote then [backslash, dquote]
      else if c = backslash then [backslash, backslash]
      else if c = newline then [backslash, CHR ''n'']
      else if c = CHR 0x0D then [backslash, CHR ''r'']
      else if c = CHR 0x09 then [backslash, CHR ''t'']
      else if c = CHR 0x08 then [backslash, CHR ''b'']
      else if c = CHR 0x0C then [backslash, CHR ''f'']
      else if between 32 126 (code c) then [c]
      else [backslash, CHR ''u'', CHR ''0'', CHR ''0'', hex_digit (code c div 16), hex_digit (code c mod 16)])"

definition encode_string :: "string \<Rightarrow> string" where
  "encode_string s = [dquote] @ concat (map escape_char s) @ [dquote]"

text \<open>
  \<^verbatim>\<open>json.dumps(v, indent=2)\<close>: an empty list or dictionary on one line, otherwise one
  item per line, indented by two spaces per level, with \<^verbatim>\<open>,\<close> between the items and
  \<^verbatim>\<open>: \<close> after a key.
\<close>

definition newline_indent :: "nat \<Rightarrow> string" where
  "newline_indent level = newline # replicate (2 * level) (CHR '' '')"

fun dumps_at :: "nat \<Rightarrow> json \<Rightarrow> string"
  and dumps_items :: "nat \<Rightarrow> json list \<Rightarrow> string"
  and dumps_pairs :: "nat \<Rightarrow> (string \<times> json) list \<Rightarrow> string" where
  "dumps_at level JNull = ''null''"
| "dumps_at level (JBool b) = (if b then ''true'' else ''false'')"
| "dumps_at level (JInt i) = str_int i"
| "dumps_at level (JFloat r) = r"
| "dumps_at level (JStr s) = encode_string s"
| "dumps_at level (JList []) = ''[]''"
| "dumps_at level (JList (v # vs)) =
     ''['' @ newline_indent (level + 1) @ dumps_items (level + 1) (v # vs) @ newline_indent level @ '']''"
| "dumps_at level (JDict []) = ''{}''"
| "dumps_at level (JDict (p # ps)) =
     ''{'' @ newline_indent (level + 1) @ dumps_pairs (level + 1) (p # ps) @ newline_indent level @ ''}''"
| "dumps_items level [] = []"
| "dumps_items level [v] = dumps_at level v"
| "dumps_items level (v # w # vs) =
     dumps_at level v @ '','' @ newline_indent level @ dumps_items level (w # vs)"
| "dumps_pairs level [] = []"
| "dumps_pairs level [(k, v)] = encode_string k @ '': '' @ dumps_at level v"
| "dumps_pairs level ((k, v) # q # ps) =
     encode_string k @ '': '' @ dumps_at level v @ '','' @ newline_indent level @ dumps_pairs level (q # ps)"

definition dumps :: "json \<Rightarrow> string" where
  "dumps v = dumps_at 0 v"

text \<open>
  \<^verbatim>\<open>json.loads\<close>. Whitespace is space, tab, newline and carriage return. A string is read up
  to the closing quote; an escape \<^verbatim>\<open>\uXXXX\<close> beyond U+00FF is outside the modelled
  characters and rejected. The constants \<^verbatim>\<open>NaN\<close> and \<^verbatim>\<open>Infinity\<close>, which stand for
  the floats that are not finite, are not modelled.
\<close>

definition isws :: "char \<Rightarrow> bool" where
  "isws c = (c = CHR '' '' \<or> c = CHR 0x09 \<or> c = newline \<or> c = CHR 0x0D)"

definition skip_ws :: "string \<Rightarrow> string" where
  "skip_ws s = dropWhile isws s"

definition hex_value :: "char \<Rightarrow> nat option" where
  "hex_value c =
     (if between 48 57 (code c) then Some (code c - 48)
      else if between 97 102 (code c) then Some (code c - 87)
      else if between 65 70 (code c) then Some (code c - 55)
      else None)"

definition hex4 :: "char \<Rightarrow> char \<Rightarrow> char \<Rightarrow> char \<Rightarrow> nat option" where
  "hex4 a b c d =
     (case (hex_value a, hex_value b, hex_value c, hex_value d) of
        (Some x, Some y, Some z, Some w) \<Rightarrow> Some (((x * 16 + y) * 16 + z) * 16 + w)
      | _ \<Rightarrow> None)"

definition unescape :: "char \<Rightarrow> char option" where
  "unescape e =
     (if e = dquote then Some dquote
      else if e = backslash then Some backslash
      else if e = CHR ''/'' then Some (CHR ''/'')
      else if e = CHR ''b'' then Some (CHR 0x08)
      else if e = CHR ''f'' then Some (CHR 0x0C)
      else if e = CHR ''n'' then Some newline
      else if e = CHR ''r'' then Some (CHR 0x0D)
      else if e = CHR ''t'' then Some (CHR 0x09)
      else None)"

definition prepend :: "char \<Rightarrow> (string \<times> string) option \<Rightarrow> (string \<times> string) option" where
  "prepend c r = (case r of None \<Rightarrow> None | Some (s, rest) \<Rightarrow> Some (c # s, rest))"

fun scan_string :: "string \<Rightarrow> (string \<times> string) option" where
  "scan_string [] = None"
| "scan_string (c # cs) =
     (if c = dquote then Some ([], cs)
      else if c = backslash then
        (case cs of
           [] \<Rightarrow> None
         | e # r \<Rightarrow>
             (if e = CHR ''u'' then
                (case r of
                   h1 # h2 # h3 # h4 # r' \<Rightarrow>
                     (case hex4 h1 h2 h3 h4 of
                        None \<Rightarrow> None
                      | Some n \<Rightarrow> (if n < 256 then prepend (char_of n) (scan_string r') else None))
                 | _ \<Rightarrow> None)
              else (case unescape e of None \<Rightarrow> None | Some ch \<Rightarrow> prepend ch (scan_string r))))
      else if code c < 32 then None
      else prepend c (scan_string cs))"

text \<open>
  A number token is an optional minus sign, an integer part without leading zero, an optional
  fraction and an optional exponent; without fraction and exponent it is an integer,
  otherwise a float.
\<close>

definition digits_value :: "string \<Rightarrow> nat" where
  "digits_value ds = foldl (\<lambda>n c. 10 * n + (code c - 48)) 0 ds"

definition scan_int :: "string \<Rightarrow> (string \<times> string) option" where
  "scan_int s =
     (case s of
        [] \<Rightarrow> None
      | c # r \<Rightarrow>
          (if c = CHR ''0'' then Some ([c], r)
           else if isdecimal c then Some (c # takeWhile isdecimal r, dropWhile isdecimal r)
           else None))"

definition scan_frac :: "string \<Rightarrow> string \<times> string" where
  "scan_frac s =
     (case s of
        c # d # r \<Rightarrow>
          (if c = CHR ''.'' \<and> isdecimal d then (c # d # takeWhile isdecimal r, dropWhile isdecimal r)
           else ([], s))
      | _ \<Rightarrow> ([], s))"

definition scan_exp :: "string \<Rightarrow> string \<times> string" where
  "scan_exp s =
     (case s of
        e # d # r \<Rightarrow>
          (if e = CHR ''e'' \<or> e = CHR ''E'' then
             (if isdecimal d then (e # d # takeWhile isdecimal r, dropWhile isdecimal r)
              else if d = CHR ''+'' \<or> d = CHR ''-'' then
                (case r of
                   d' # r' \<Rightarrow>
                     (if isdecimal d' then (e # d # d' # takeWhile isdecimal r', dropWhile isdecimal r')
                      else ([], s))
                 | [] \<Rightarrow> ([], s))
              else ([], s))
           else ([], s))
      | _ \<Rightarrow> ([], s))"

definition scan_number :: "string \<Rightarrow> (json \<times> string) option" where
  "scan_number s =
     (let (sign, s1) = (case s of c # r \<Rightarrow> if c = CHR ''-'' then ([c], r) else ([], s) | [] \<Rightarrow> ([], s))
      in case scan_int s1 of
           None \<Rightarrow> None
         | Some (ip, s2) \<Rightarrow>
             (let (fp, s3) = scan_frac s2; (ep, s4) = scan_exp s3
              in if fp = [] \<and> ep = []
                 then Some (JInt (if sign = [] then int (digits_value ip) else - int (digits_value ip)), s4)
                 else Some (JFloat (sign @ ip @ fp @ ep), s4)))"

text \<open>
  The items read for a dictionary are stored one after the other, a repeated key replacing
  the value stored before.
\<close>

fun dict_set :: "(string \<times> json) list \<Rightarrow> string \<Rightarrow> json \<Rightarrow> (string \<times> json) list" where
  "dict_set [] k v = [(k, v)]"
| "dict_set ((k', v') # ps) k v = (if k' = k then (k', v) # ps else (k', v') # dict_set ps k v)"

definition dict_of :: "(string \<times> json) list \<Rightarrow> (string \<times> json) list" where
  "dict_of ps = foldl (\<lambda>d (k, v). dict_set d k v) [] ps"

text \<open>
  The recursive descent of the decoder. The first argument bounds the number of nested
  calls; \<open>loads\<close> gives one more than the length of the text, which no text exhausts, and
  requires that only whitespace follows the value.
\<close>

fun parse_value :: "nat \<Rightarrow> string \<Rightarrow> (json \<times> string) option"
  and parse_items :: "nat \<Rightarrow> string \<Rightarrow> (json list \<times> string) option"
  and parse_pairs :: "nat \<Rightarrow> string \<Rightarrow> ((string \<times> json) list \<times> string) option" where
  "parse_value 0 s = None"
| "parse_value (Suc n) s =
     (case s of
        [] \<Rightarrow> None
      | c # r \<Rightarrow>
          (if c = dquote then
             (case scan_string r of None \<Rightarrow> None | Some (str, rest) \<Rightarrow> Some (JStr str, rest))
           else if c = CHR ''{'' then
             (case skip_ws r of
                [] \<Rightarrow> None
              | d # r' \<Rightarrow>
                  (if d = CHR ''}'' then Some (JDict [], r')
                   else (case parse_pairs n (d # r') of
                           None \<Rightarrow> None
                         | Some (ps, rest) \<Rightarrow> Some (JDict (dict_of ps), rest))))
           else if c = CHR ''['' then
             (case skip_ws r of
                [] \<Rightarrow> None
              | d # r' \<Rightarrow>
                  (if d = CHR '']'' then Some (JList [], r')
                   else (case parse_items n (d # r') of
                           None \<Rightarrow> None
                         | Some (vs, rest) \<Rightarrow> Some (JList vs, rest))))
           else if take 4 s = ''null'' then Some (JNull, drop 4 s)
           else if take 4 s = ''true'' then Some (JBool True, drop 4 s)
           else if take 5 s = ''false'' then Some (JBool False, drop 5 s)
           else scan_number s))"
| "parse_items 0 s = None"
| "parse_items (Suc n) s =
     (case parse_value n s of
        None \<Rightarrow> None
      | Some (v, r) \<Rightarrow>
          (case skip_ws r of
             [] \<Rightarrow> None
           | c # r' \<Rightarrow>
               (if c = CHR '','' then
                  (case parse_items n (skip_ws r') of
                     None \<Rightarrow> None
                   | Some (vs, rest) \<Rightarrow> Some (v # vs, rest))
                else if c = CHR '']'' then Some ([v], r')
                else None)))"
| "parse_pairs 0 s = None"
| "parse_pairs (Suc n) s =
     (case s of
        [] \<Rightarrow> None
      | q # r \<Rightarrow>
          (if q = dquote then
             (case scan_string r of
                None \<Rightarrow> None
              | Some (k, r1) \<Rightarrow>
                  (case skip_ws r1 of
                     [] \<Rightarrow> None
                   | c # r2 \<Rightarrow>
                       (if c = CHR '':'' then
                          (case parse_value n (skip_ws r2) of
                             None \<Rightarrow> None
                           | Some (v, r3) \<Rightarrow>
                               (case skip_ws r3 of
                                  [] \<Rightarrow> None
                                | d # r4 \<Rightarrow>
                                    (if d = CHR '','' then
                                       (case parse_pairs n (skip_ws r4) of
                                          None \<Rightarrow> None
                                        | Some (ps, rest) \<Rightarrow> Some ((k, v) # ps, rest))
                                     else if d = CHR ''}'' then Some ([(k, v)], r4)
                                     else None)))
                        else None)))
           else None))"

definition loads :: "string \<Rightarrow> json option" where
  "loads s =
     (case parse_value (Suc (length s)) (skip_ws s) of
        None \<Rightarrow> None
      | Some (v, rest) \<Rightarrow> (if skip_ws rest = [] then Some v else None))"

subsection \<open>Notions for the round trip\<close>




fun need :: "json \<Rightarrow> nat"
  and need_items :: "json list \<Rightarrow> nat"
  and need_pairs :: "(string \<times> json) list \<Rightarrow> nat" where
  "need (JList vs) = Suc (need_items vs)"
| "need (JDict ps) = Suc (need_pairs ps)"
| "need v = Suc 0"
| "need_items [] = 0"
| "need_items (v # vs) = Suc (max (need v) (need_items vs))"
| "need_pairs [] = 0"
| "need_pairs ((k, v) # ps) = Suc (max (need v) (need_pairs ps))"





subsection \<open>The export\<close>






section \<open>Concrete inputs\<close>

text \<open>The search example of the specification.\<close>

definition hello_text :: string where
  "hello_text = ''Hello'' @ [newline] @ ''world'' @ [newline] @ ''HELLO again''"

text \<open>
  An imaging library whose calls all succeed and change nothing, a three-page document whose
  second page the engine rejects, and a document the rasterizer rejects.
\<close>

definition plain_lib :: "(nat, nat) pil" where
  "plain_lib = \<lparr>image_convert = (\<lambda>img mode. Inr img), Contrast = (\<lambda>img. Inr img),
     Sharpness = (\<lambda>img. Inr img), enhancer_enhance = (\<lambda>enhancer factor. Inr enhancer),
     image_filter_median = (\<lambda>img size. Inr img)\<rparr>"

definition three_pages :: "(unit, nat) ocr" where
  "three_pages = \<lparr>convert_from_bytes = (\<lambda>pdf dpi fmt. Inr [1, 2, 3]),
     image_to_string = (\<lambda>img lang config.
        if img = 2 then Inl (Exception ''engine failed'') else Inr ('' recognized text '' @ [newline]))\<rparr>"

definition unreadable :: "(unit, nat) ocr" where
  "unreadable = \<lparr>convert_from_bytes = (\<lambda>pdf dpi fmt. Inl (Exception ''not a PDF'')),
     image_to_string = (\<lambda>img lang config. Inr ''text'')\<rparr>"

text \<open>
  A database engine that reads the text 12 as a number, and three records to save.
\<close>

definition simple_sqlite :: sqlite where
  "simple_sqlite = \<lparr>numeric_literal = (\<lambda>s. if s = ''12'' then Some (SqlInteger 12) else None),
     real_text = (\<lambda>x. ''0.0'')\<rparr>"

definition three_records :: "saved list" where
  "three_records =
     [(''2024-05-01T10:00:00'', PyStr ''a.pdf'', PyStr ''first'',
       [''page_count'' \<mapsto> PyInt 2, ''word_count'' \<mapsto> PyInt 10, ''character_count'' \<mapsto> PyInt 50,
        ''language'' \<mapsto> PyStr ''deu'', ''processing_time'' \<mapsto> PyFloat (3 / 2),
        ''quality_score'' \<mapsto> PyFloat 100]),
      (''2024-05-02T09:30:00'', PyStr ''b.pdf'', PyStr ''second'', Map.empty),
      (''2024-05-01T10:00:00'', PyStr ''c.pdf'', PyStr ''third'', [''page_count'' \<mapsto> PyInt 1])]"

text \<open>The extraction example of the specification.\<close>

definition two_emails :: string where
  "two_emails = ''john@example.com and jane@test.org''"


section \<open>Properties of the quality score\<close>

lemma score_cases:
  "calculate_quality_score text =
     100 - (length_deduction text + ratio_deduction text + word_deduction text)"
  by (simp add: calculate_quality_score_def length_deduction_def ratio_deduction_def
      word_deduction_def Let_def)

lemma length_deduction_range: "length_deduction text = 0 \<or> length_deduction text = 50"
  by (simp add: length_deduction_def)

lemma ratio_deduction_range: "ratio_deduction text = 0 \<or> ratio_deduction text = 30"
  by (simp add: ratio_deduction_def)

lemma word_deduction_range: "word_deduction text = 0 \<or> word_deduction text = 20"
  by (simp add: word_deduction_def)

lemma tokens_Nil: "tokens [] = []"
  by (simp add: tokens.simps)

lemma tokens_space: "isspace c \<Longrightarrow> tokens (c # cs) = tokens cs"
  by (simp add: tokens.simps [of "c # cs"] tokens.simps [of cs])

lemma tokens_char:
  "\<not> isspace c \<Longrightarrow>
   tokens (c # cs) = (c # takeWhile (\<lambda>x. \<not> isspace x) cs) # tokens (dropWhile (\<lambda>x. \<not> isspace x) cs)"
  by (simp add: tokens.simps [of "c # cs"])

lemma split_scan_tokens:
  "split_scan cur s =
     (if cur = [] then tokens s
      else (cur @ takeWhile (\<lambda>x. \<not> isspace x) s) # tokens (dropWhile (\<lambda>x. \<not> isspace x) s))"
proof (induction s arbitrary: cur)
  case Nil
  then show ?case by (simp add: tokens_Nil)
next
  case (Cons c cs)
  show ?case
  proof (cases "isspace c")
    case True
    then show ?thesis by (simp add: Cons.IH tokens_space)
  next
    case False
    then show ?thesis by (simp add: Cons.IH tokens_char)
  qed
qed

lemma rev_dropWhile_rev:
  "rev (dropWhile P (rev t)) = take (length t - length (takeWhile P (rev t))) t"
proof -
  have "rev t = takeWhile P (rev t) @ dropWhile P (rev t)" by simp
  then have "t = rev (dropWhile P (rev t)) @ rev (takeWhile P (rev t))"
    by (metis rev_append rev_rev_ident)
  then have "take (length (rev (dropWhile P (rev t)))) t = rev (dropWhile P (rev t))"
    by (metis append_eq_conv_conj)
  moreover have "length (rev (dropWhile P (rev t))) = length t - length (takeWhile P (rev t))"
    by (metis length_rev length_append takeWhile_dropWhile_id add_diff_cancel_left')
  ultimately show ?thesis by simp
qed

lemma trailing_dropWhile:
  "dropWhile P s \<noteq> [] \<Longrightarrow> takeWhile P (rev (dropWhile P s)) = takeWhile P (rev s)"
proof -
  assume n: "dropWhile P s \<noteq> []"
  have "rev s = rev (dropWhile P s) @ rev (takeWhile P s)"
    by (metis rev_append takeWhile_dropWhile_id)
  moreover have "\<exists>x \<in> set (rev (dropWhile P s)). \<not> P x"
    using n by (metis hd_dropWhile hd_in_set set_rev)
  ultimately show ?thesis
    by (metis takeWhile_append1)
qed

lemma strip_trimmed: "strip s = trimmed s"
proof (cases "dropWhile isspace s = []")
  case True
  then have a: "takeWhile isspace s = s"
    by (metis append_Nil2 takeWhile_dropWhile_id)
  show ?thesis by (simp add: strip_def trimmed_def True a)
next
  case False
  let ?a = "length (takeWhile isspace s)"
  let ?t = "length (takeWhile isspace (rev s))"
  have d: "dropWhile isspace s = drop ?a s" by (rule dropWhile_eq_drop)
  have "strip s = take (length (drop ?a s) - ?t) (drop ?a s)"
    unfolding strip_def rev_dropWhile_rev trailing_dropWhile [OF False] d [symmetric] ..
  also have "\<dots> = drop ?a (take (length s - ?t) s)"
    by (simp add: drop_take add.commute)
  finally show ?thesis by (simp add: trimmed_def)
qed

lemma split_tokens: "split s = tokens s"
  by (simp add: split_def split_scan_tokens)

lemma count_true: "sum_list (map (\<lambda>c. bool_int (P c)) xs) = length (filter P xs)"
  by (induction xs) (simp_all add: bool_int_def)

lemma alphanumeric_ratio_count:
  "alphanumeric_ratio s = real (length (filter (\<lambda>c. isalnum c \<or> isspace c) s)) / real (max (length s) 1)"
  by (simp add: alphanumeric_ratio_def count_true)

lemma avg_word_length_concat: "avg_word_length ws = real (length (concat ws)) / real (length ws)"
  by (simp add: avg_word_length_def length_concat)

lemma quality_examples:
  "calculate_quality_score ''The quick brown fox.'' = 100"
  "calculate_quality_score ''!!!!!!!!!!!!'' = 70"
  "calculate_quality_score ''abcdefg!!!'' = 100"
  "calculate_quality_score ''abcdef!!!!'' = 70"
  "calculate_quality_score ''  abc   '' = 50"
  "calculate_quality_score ''a b c d e f g h'' = 80"
  "calculate_quality_score ''abcdefghijklmnop'' = 80"
  "calculate_quality_score ''! !'' = 0"
  "calculate_quality_score [] = 20"
  by code_simp+

text \<open>
  C3: the score is 100 minus the deductions that apply, clamped to the interval from 0 to
  100: 50 when the trimmed text has fewer than 10 characters; 30 when the characters that are
  alphanumeric or whitespace, counted and divided by the length of the text (by 1 for the
  empty text), make a ratio below 0.7; 20 when there is a token and the mean length of the
  tokens is below 2 or above 15. A sentence scores 100, twelve exclamation marks 70, seven
  letters with three exclamation marks (ratio exactly 0.7) 100, six letters with four 70, a
  padded three-letter word 50, eight one-letter words 80, one word of sixteen letters 80, two
  exclamation marks apart 0, and the empty text 20.
\<close>

theorem calculate_quality_score_spec:
  "calculate_quality_score text =
     max 0 (min 100 (100
       - (if length (trimmed text) < 10 then 50 else 0)
       - (if real (length (filter (\<lambda>c. isalnum c \<or> isspace c) text)) / real (max (length text) 1) < 7 / 10
          then 30 else 0)
       - (if tokens text \<noteq> []
             \<and> (real (length (concat (tokens text))) / real (length (tokens text)) < 2
                \<or> real (length (concat (tokens text))) / real (length (tokens text)) > 15)
          then 20 else 0)))
   \<and> calculate_quality_score ''The quick brown fox.'' = 100
   \<and> calculate_quality_score ''!!!!!!!!!!!!'' = 70
   \<and> calculate_quality_score ''abcdefg!!!'' = 100
   \<and> calculate_quality_score ''abcdef!!!!'' = 70
   \<and> calculate_quality_score ''  abc   '' = 50
   \<and> calculate_quality_score ''a b c d e f g h'' = 80
   \<and> calculate_quality_score ''abcdefghijklmnop'' = 80
   \<and> calculate_quality_score ''! !'' = 0
   \<and> calculate_quality_score [] = 20"
proof -
  have "calculate_quality_score text =
     max 0 (min 100 (100
       - (if length (trimmed text) < 10 then 50 else 0)
       - (if real (length (filter (\<lambda>c. isalnum c \<or> isspace c) text)) / real (max (length text) 1) < 7 / 10
          then 30 else 0)
       - (if tokens text \<noteq> []
             \<and> (real (length (concat (tokens text))) / real (length (tokens text)) < 2
                \<or> real (length (concat (tokens text))) / real (length (tokens text)) > 15)
          then 20 else 0)))"
    unfolding score_cases length_deduction_def ratio_deduction_def word_deduction_def
      strip_trimmed alphanumeric_ratio_count split_tokens avg_word_length_concat
    by simp
  with quality_examples show ?thesis by (intro conjI)
qed

text \<open>C4: for every text, the empty one included, the score lies between 0 and 100.\<close>

theorem calculate_quality_score_bounds:
  "0 \<le> calculate_quality_score text \<and> calculate_quality_score text \<le> 100"
  by (simp add: calculate_quality_score_def Let_def)

text \<open>
  C10: the score is one of 0, 20, 30, 50, 70, 80 and 100, the values of 100 minus a sum of
  some of the deductions 50, 30 and 20.
\<close>

theorem calculate_quality_score_values:
  "calculate_quality_score text \<in> {0, 20, 30, 50, 70, 80, 100}"
proof -
  have "\<And>l r w :: real. l = 0 \<or> l = 50 \<Longrightarrow> r = 0 \<or> r = 30 \<Longrightarrow> w = 0 \<or> w = 20 \<Longrightarrow>
      100 - (l + r + w) \<in> {0, 20, 30, 50, 70, 80, 100}"
    by auto
  from this [OF length_deduction_range ratio_deduction_range word_deduction_range]
  show ?thesis
    unfolding score_cases .
qed

section \<open>Properties of the search\<close>

lemma startswith_iff: "startswith s q \<longleftrightarrow> (\<exists>ys. s = q @ ys)"
  by (induction s q rule: startswith.induct) auto

lemma is_substring_Nil: "is_substring q [] \<longleftrightarrow> q = []"
  by (simp add: is_substring_def)

lemma is_substring_Cons:
  "is_substring q (c # cs) \<longleftrightarrow> (\<exists>ys. c # cs = q @ ys) \<or> is_substring q cs"
proof
  assume "is_substring q (c # cs)"
  then obtain xs ys where eq: "c # cs = xs @ q @ ys"
    by (auto simp: is_substring_def)
  show "(\<exists>ys. c # cs = q @ ys) \<or> is_substring q cs"
  proof (cases xs)
    case Nil
    with eq show ?thesis by auto
  next
    case (Cons x xs')
    with eq have "cs = xs' @ q @ ys" by simp
    then show ?thesis by (auto simp: is_substring_def)
  qed
next
  assume "(\<exists>ys. c # cs = q @ ys) \<or> is_substring q cs"
  then show "is_substring q (c # cs)"
  proof
    assume "\<exists>ys. c # cs = q @ ys"
    then obtain ys where "c # cs = [] @ q @ ys" by auto
    then show ?thesis unfolding is_substring_def by blast
  next
    assume "is_substring q cs"
    then obtain xs ys where "cs = xs @ q @ ys" by (auto simp: is_substring_def)
    then have "c # cs = (c # xs) @ q @ ys" by simp
    then show ?thesis unfolding is_substring_def by blast
  qed
qed

lemma contains_iff: "contains q s \<longleftrightarrow> is_substring q s"
  by (induction s) (simp_all add: is_substring_Nil is_substring_Cons startswith_iff)

lemma search_loop_eq:
  "search_loop query cs i ls acc =
     acc @ filter (\<lambda>(i, line). is_substring (case_policy cs query) (case_policy cs line))
             (zip [i..<i + length ls] ls)"
proof (induction ls arbitrary: i acc)
  case Nil
  then show ?case by simp
next
  case (Cons l ls)
  have upt: "[i..<i + length (l # ls)] = i # [Suc i..<Suc i + length ls]"
    using upt_conv_Cons [of i "i + length (l # ls)"] by simp
  show ?case
    unfolding upt by (simp add: Cons.IH contains_iff case_policy_def Let_def)
qed

lemma split_on_scan_nonempty: "split_on_scan sep cur s \<noteq> []"
  by (induction s arbitrary: cur) auto

lemma join_lines_Cons: "ls \<noteq> [] \<Longrightarrow> join_lines (l # ls) = l @ [newline] @ join_lines ls"
  by (cases ls) auto

lemma join_split_on_scan: "join_lines (split_on_scan newline cur s) = cur @ s"
  by (induction s arbitrary: cur) (auto simp: join_lines_Cons split_on_scan_nonempty)

lemma split_on_scan_no_sep:
  "sep \<notin> set cur \<Longrightarrow> \<forall>l \<in> set (split_on_scan sep cur s). sep \<notin> set l"
proof (induction s arbitrary: cur)
  case Nil
  then show ?case by simp
next
  case (Cons c s)
  show ?case
  proof (cases "c = sep")
    case True
    then show ?thesis using Cons.prems Cons.IH [of "[]"] by simp
  next
    case False
    then show ?thesis using Cons.prems Cons.IH [of "cur @ [c]"] by simp
  qed
qed

text \<open>
  C5, amended to what the code does: the text is split at the newlines into lines numbered from 1 (joining
  the lines with newlines gives the text back), and the result is the list, in line order,
  of the pairs of line number and original line for the lines that contain the query as a
  literal substring, both lowercased when the search is case-insensitive; an empty query
  gives the empty list. On the three lines Hello, world, HELLO again the case-insensitive
  search for hello gives lines 1 and 3; the case-sensitive search for hello gives no line,
  and the case-sensitive search for Hello gives line 1 only.
\<close>

theorem search_in_text_spec:
  "search_in_text txt query case_sensitive
     = (if query = [] then [] else matching_lines txt query case_sensitive)
   \<and> join_lines (split_on newline txt) = txt
   \<and> search_in_text hello_text ''hello'' False = [(1, ''Hello''), (3, ''HELLO again'')]
   \<and> search_in_text hello_text ''hello'' True = []
   \<and> search_in_text hello_text ''Hello'' True = [(1, ''Hello'')]"
proof -
  have general: "search_in_text txt query case_sensitive
     = (if query = [] then [] else matching_lines txt query case_sensitive)"
    by (simp add: search_in_text_def matching_lines_def numbered_def search_loop_eq)
  have lines: "join_lines (split_on newline txt) = txt"
    by (simp add: split_on_def join_split_on_scan)
  have insensitive: "search_in_text hello_text ''hello'' False = [(1, ''Hello''), (3, ''HELLO again'')]"
    by code_simp
  have sensitive: "search_in_text hello_text ''hello'' True = []"
    by code_simp
  have capital: "search_in_text hello_text ''Hello'' True = [(1, ''Hello'')]"
    by code_simp
  from general lines insensitive sensitive capital show ?thesis
    by (intro conjI)
qed

text \<open>
  C5 as the specification states it fails: the case-sensitive search for hello does not
  return line 1, whose text is Hello with a capital letter.
\<close>

theorem search_in_text_case_sensitive_counterexample:
  "search_in_text hello_text ''hello'' True \<noteq> [(1, ''Hello'')]"
  by code_simp

section \<open>Properties of the preprocessing and of the OCR invoker\<close>

lemma preprocess_image_returns:
  "preprocess_image lib img enhance denoise = Inr (prepared lib enhance denoise img)"
  by (simp add: preprocess_image_def prepared_def transformation_steps_def grayscale_step_def
      contrast_step_def sharpness_step_def median_step_def split: sum.splits)

lemma process_pages_eq:
  "process_pages lib eng ocr_lang config enhance denoise idx images acc =
     Inr (acc @ concat (map (page_block lib eng ocr_lang config enhance denoise) (List.enumerate idx images)))"
proof (induction images arbitrary: idx acc)
  case Nil
  then show ?case by simp
next
  case (Cons img images)
  have pre: "(if enhance then preprocess_image lib img True denoise else Inr img)
      = Inr (prepared lib enhance denoise img)"
    by (simp add: preprocess_image_returns) (simp add: prepared_def)
  show ?case
    by (simp add: pre Cons.IH page_block_def split: sum.splits)
qed

text \<open>
  C7: no exception leaves \<^verbatim>\<open>preprocess_image\<close>. Without \<^verbatim>\<open>enhance\<close> the result is the input
  image; with it, the result is the image obtained from the steps (grayscale, contrast,
  sharpness and, with \<^verbatim>\<open>denoise\<close>, the median filter) run in order up to the first one that
  raises.
\<close>

theorem preprocess_image_graceful:
  "preprocess_image lib img enhance denoise
     = Inr (if enhance then best_so_far (transformation_steps lib denoise) img else img)
   \<and> preprocess_image lib img False denoise = Inr img"
  by (simp add: preprocess_image_returns prepared_def)

lemma page_banner_eq: "page_banner idx = delimiter_banner (''PAGE '' @ str_nat (idx + 1))"
  by (simp add: page_banner_def delimiter_banner_def rule60_def newline_def)

lemma error_banner_eq: "error_banner idx = delimiter_banner (''PAGE '' @ str_nat (idx + 1) @ '' - ERROR'')"
  by (simp add: error_banner_def delimiter_banner_def rule60_def newline_def)

lemma page_block_expected:
  "page_block lib eng ocr_lang (custom_config psm_mode) enhance denoise =
     (\<lambda>p. expected_block (fst p + 1)
       (image_to_string eng (prepared lib enhance denoise (snd p)) ocr_lang (''--oem 3 --psm '' @ str_nat psm_mode)))"
  by (rule ext) (simp add: page_block_def expected_block_def page_banner_eq error_banner_eq strip_trimmed
      custom_config_def newline_def split: sum.splits)

lemma small_page_numbers: "str_nat 1 = ''1'' \<and> str_nat 2 = ''2'' \<and> str_nat 3 = ''3''"
  by code_simp

text \<open>
  C1: when the rasterizer returns the page images, the text is the concatenation, in page
  order, of one block per page: a banner (line feed, sixty equals signs, the line
  \<^verbatim>\<open>PAGE n\<close> with the 1-based page number \<open>n\<close>, sixty equals signs, an empty line) followed by
  the trimmed recognized text and an empty line; when the engine raises on a page, its block is
  the banner alone, with the line \<^verbatim>\<open>PAGE n - ERROR\<close>. The engine receives the prepared image,
  the language and the configuration \<^verbatim>\<open>--oem 3 --psm\<close> with the segmentation mode. The page
  count is the number of images and the error is null. For three pages of which the engine
  rejects the second, the text is the banner \<^verbatim>\<open>PAGE 1\<close> and the text of page 1, the banner
  \<^verbatim>\<open>PAGE 2 - ERROR\<close>, and the banner \<^verbatim>\<open>PAGE 3\<close> and the text of page 3.
\<close>

theorem extract_pages:
  "(convert_from_bytes eng pdf_bytes dpi ''jpeg'' = Inr images \<longrightarrow>
      extract_text_from_pdf lib eng pdf_bytes ocr_lang dpi psm_mode enhance denoise =
        (concat (map (\<lambda>p. expected_block (fst p + 1)
             (image_to_string eng (prepared lib enhance denoise (snd p)) ocr_lang
                (''--oem 3 --psm '' @ str_nat psm_mode)))
           (List.enumerate 0 images)), length images, None))
   \<and> (convert_from_bytes eng pdf_bytes dpi ''jpeg'' = Inr [pa, pb, pc]
        \<and> image_to_string eng (prepared lib enhance denoise pa) ocr_lang (''--oem 3 --psm '' @ str_nat psm_mode) = Inr ta
        \<and> image_to_string eng (prepared lib enhance denoise pb) ocr_lang (''--oem 3 --psm '' @ str_nat psm_mode) = Inl e
        \<and> image_to_string eng (prepared lib enhance denoise pc) ocr_lang (''--oem 3 --psm '' @ str_nat psm_mode) = Inr tc \<longrightarrow>
      extract_text_from_pdf lib eng pdf_bytes ocr_lang dpi psm_mode enhance denoise =
        (CHR 0x0A # replicate 60 (CHR ''='') @ CHR 0x0A # ''PAGE 1'' @ CHR 0x0A # replicate 60 (CHR ''='')
           @ [CHR 0x0A, CHR 0x0A] @ trimmed ta @ [CHR 0x0A, CHR 0x0A]
         @ CHR 0x0A # replicate 60 (CHR ''='') @ CHR 0x0A # ''PAGE 2 - ERROR'' @ CHR 0x0A # replicate 60 (CHR ''='')
           @ [CHR 0x0A, CHR 0x0A]
         @ CHR 0x0A # replicate 60 (CHR ''='') @ CHR 0x0A # ''PAGE 3'' @ CHR 0x0A # replicate 60 (CHR ''='')
           @ [CHR 0x0A, CHR 0x0A] @ trimmed tc @ [CHR 0x0A, CHR 0x0A], 3, None))"
proof -
  have g: "convert_from_bytes eng pdf_bytes dpi ''jpeg'' = Inr imgs \<Longrightarrow>
      extract_text_from_pdf lib eng pdf_bytes ocr_lang dpi psm_mode enhance denoise =
        (concat (map (\<lambda>p. expected_block (fst p + 1)
             (image_to_string eng (prepared lib enhance denoise (snd p)) ocr_lang
                (''--oem 3 --psm '' @ str_nat psm_mode)))
           (List.enumerate 0 imgs)), length imgs, None)" for imgs
    unfolding extract_text_from_pdf_def process_pages_eq
    by (simp add: page_block_expected)
  have e: "List.enumerate 0 [pa, pb, pc] = [(0, pa), (1, pb), (2, pc)]"
    by (simp add: enumerate_eq_zip upt_rec numeral_2_eq_2)
  show ?thesis
  proof (intro conjI impI)
    assume "convert_from_bytes eng pdf_bytes dpi ''jpeg'' = Inr images"
    then show "extract_text_from_pdf lib eng pdf_bytes ocr_lang dpi psm_mode enhance denoise =
        (concat (map (\<lambda>p. expected_block (fst p + 1)
             (image_to_string eng (prepared lib enhance denoise (snd p)) ocr_lang
                (''--oem 3 --psm '' @ str_nat psm_mode)))
           (List.enumerate 0 images)), length images, None)"
      by (rule g)
  next
    assume a: "convert_from_bytes eng pdf_bytes dpi ''jpeg'' = Inr [pa, pb, pc]
        \<and> image_to_string eng (prepared lib enhance denoise pa) ocr_lang (''--oem 3 --psm '' @ str_nat psm_mode) = Inr ta
        \<and> image_to_string eng (prepared lib enhance denoise pb) ocr_lang (''--oem 3 --psm '' @ str_nat psm_mode) = Inl e
        \<and> image_to_string eng (prepared lib enhance denoise pc) ocr_lang (''--oem 3 --psm '' @ str_nat psm_mode) = Inr tc"
    have n: "str_nat (Suc 0) = ''1''" "str_nat (Suc (Suc 0)) = ''2''" "str_nat (Suc (Suc (Suc 0))) = ''3''"
      "str_nat 2 = ''2''" "str_nat 3 = ''3''" "str_nat (Suc 2) = ''3''"
      using small_page_numbers by (simp_all add: numeral_2_eq_2 [symmetric] numeral_3_eq_3 [symmetric])
    from a have c: "convert_from_bytes eng pdf_bytes dpi ''jpeg'' = Inr [pa, pb, pc]" by simp
    show "extract_text_from_pdf lib eng pdf_bytes ocr_lang dpi psm_mode enhance denoise =
        (CHR 0x0A # replicate 60 (CHR ''='') @ CHR 0x0A # ''PAGE 1'' @ CHR 0x0A # replicate 60 (CHR ''='')
           @ [CHR 0x0A, CHR 0x0A] @ trimmed ta @ [CHR 0x0A, CHR 0x0A]
         @ CHR 0x0A # replicate 60 (CHR ''='') @ CHR 0x0A # ''PAGE 2 - ERROR'' @ CHR 0x0A # replicate 60 (CHR ''='')
           @ [CHR 0x0A, CHR 0x0A]
         @ CHR 0x0A # replicate 60 (CHR ''='') @ CHR 0x0A # ''PAGE 3'' @ CHR 0x0A # replicate 60 (CHR ''='')
           @ [CHR 0x0A, CHR 0x0A] @ trimmed tc @ [CHR 0x0A, CHR 0x0A], 3, None)"
      unfolding g [OF c] e using a
      by (simp add: expected_block_def delimiter_banner_def n)
  qed
qed

theorem extract_pages_witness:
  "convert_from_bytes three_pages () 300 ''jpeg'' = Inr [1, 2, 3]
   \<and> image_to_string three_pages 1 ''eng'' ''--oem 3 --psm 3'' = Inr ('' recognized text '' @ [CHR 0x0A])
   \<and> image_to_string three_pages 2 ''eng'' ''--oem 3 --psm 3'' = Inl (Exception ''engine failed'')
   \<and> image_to_string three_pages 3 ''eng'' ''--oem 3 --psm 3'' = Inr ('' recognized text '' @ [CHR 0x0A])
   \<and> extract_text_from_pdf plain_lib three_pages () ''eng'' 300 3 True True =
       (CHR 0x0A # ''============================================================''
          @ CHR 0x0A # ''PAGE 1''
          @ CHR 0x0A # ''============================================================''
          @ CHR 0x0A # CHR 0x0A # ''recognized text''
          @ CHR 0x0A # CHR 0x0A
          # CHR 0x0A # ''============================================================''
          @ CHR 0x0A # ''PAGE 2 - ERROR''
          @ CHR 0x0A # ''============================================================''
          @ CHR 0x0A # CHR 0x0A
          # CHR 0x0A # ''============================================================''
          @ CHR 0x0A # ''PAGE 3''
          @ CHR 0x0A # ''============================================================''
          @ CHR 0x0A # CHR 0x0A # ''recognized text''
          @ [CHR 0x0A, CHR 0x0A], 3, None)"
proof -
  have s: "trimmed ('' recognized text '' @ [CHR 0x0A]) = ''recognized text''" by code_simp
  have r60: "replicate 60 (CHR ''='') = ''============================================================''"
    by code_simp
  have k: "''--oem 3 --psm '' @ str_nat 3 = ''--oem 3 --psm 3''" by code_simp
  have p: "prepared plain_lib True True = (\<lambda>i. i)"
    by (rule ext) (simp add: prepared_def transformation_steps_def grayscale_step_def contrast_step_def
        sharpness_step_def median_step_def plain_lib_def)
  have c: "convert_from_bytes three_pages () 300 ''jpeg'' = Inr [1, 2, 3]"
    by (simp add: three_pages_def)
  have o1: "image_to_string three_pages 1 ''eng'' ''--oem 3 --psm 3'' = Inr ('' recognized text '' @ [CHR 0x0A])"
    by (simp add: three_pages_def newline_def)
  have o2: "image_to_string three_pages 2 ''eng'' ''--oem 3 --psm 3'' = Inl (Exception ''engine failed'')"
    by (simp add: three_pages_def)
  have o3: "image_to_string three_pages 3 ''eng'' ''--oem 3 --psm 3'' = Inr ('' recognized text '' @ [CHR 0x0A])"
    by (simp add: three_pages_def newline_def)
  have prem: "convert_from_bytes three_pages () 300 ''jpeg'' = Inr [1, 2, 3]
      \<and> image_to_string three_pages (prepared plain_lib True True 1) ''eng'' (''--oem 3 --psm '' @ str_nat 3)
          = Inr ('' recognized text '' @ [CHR 0x0A])
      \<and> image_to_string three_pages (prepared plain_lib True True 2) ''eng'' (''--oem 3 --psm '' @ str_nat 3)
          = Inl (Exception ''engine failed'')
      \<and> image_to_string three_pages (prepared plain_lib True True 3) ''eng'' (''--oem 3 --psm '' @ str_nat 3)
          = Inr ('' recognized text '' @ [CHR 0x0A])"
    unfolding p k using c o1 o2 o3 by (intro conjI)
  note th = extract_pages [where eng = three_pages and pdf_bytes = "()" and dpi = 300
        and images = "[1, 2, 3]" and lib = plain_lib and ocr_lang = "''eng''" and psm_mode = 3
        and enhance = True and denoise = True and pa = 1 and pb = 2 and pc = 3
        and ta = "'' recognized text '' @ [CHR 0x0A]" and e = "Exception ''engine failed''"
        and tc = "'' recognized text '' @ [CHR 0x0A]"]
  from th [THEN conjunct2, THEN mp, OF prem]
  have r: "extract_text_from_pdf plain_lib three_pages () ''eng'' 300 3 True True =
       (CHR 0x0A # ''============================================================''
          @ CHR 0x0A # ''PAGE 1''
          @ CHR 0x0A # ''============================================================''
          @ CHR 0x0A # CHR 0x0A # ''recognized text''
          @ CHR 0x0A # CHR 0x0A
          # CHR 0x0A # ''============================================================''
          @ CHR 0x0A # ''PAGE 2 - ERROR''
          @ CHR 0x0A # ''============================================================''
          @ CHR 0x0A # CHR 0x0A
          # CHR 0x0A # ''============================================================''
          @ CHR 0x0A # ''PAGE 3''
          @ CHR 0x0A # ''============================================================''
          @ CHR 0x0A # CHR 0x0A # ''recognized text''
          @ [CHR 0x0A, CHR 0x0A], 3, None)"
    unfolding s r60 by simp
  from c o1 o2 o3 r show ?thesis by (intro conjI)
qed

text \<open>
  C2: when the rasterizer raises, the result is the empty text, zero pages and the
  exception's message as the error. Whenever the error is not null, the text is empty, the
  page count is zero and the rasterizer has raised.
\<close>

theorem rasterization_failure:
  "(convert_from_bytes eng pdf_bytes dpi ''jpeg'' = Inl e \<longrightarrow>
      extract_text_from_pdf lib eng pdf_bytes ocr_lang dpi psm_mode enhance denoise = ([], 0, Some (str_exn e)))
   \<and> (snd (snd (extract_text_from_pdf lib eng pdf_bytes ocr_lang dpi psm_mode enhance denoise)) \<noteq> None \<longrightarrow>
        extract_text_from_pdf lib eng pdf_bytes ocr_lang dpi psm_mode enhance denoise
          = ([], 0, snd (snd (extract_text_from_pdf lib eng pdf_bytes ocr_lang dpi psm_mode enhance denoise)))
        \<and> (\<exists>e. convert_from_bytes eng pdf_bytes dpi ''jpeg'' = Inl e))"
  by (auto simp add: extract_text_from_pdf_def process_pages_eq split: sum.splits)

theorem rasterization_failure_witness:
  "convert_from_bytes unreadable () 300 ''jpeg'' = Inl (Exception ''not a PDF'')
   \<and> extract_text_from_pdf plain_lib unreadable () ''eng'' 300 3 True True = ([], 0, Some ''not a PDF'')"
  using rasterization_failure [of unreadable "()" 300 "Exception ''not a PDF''" plain_lib "''eng''" 3 True True]
  by (simp add: unreadable_def)

section \<open>Properties of the history store\<close>































lemma three_records_summaries:
  "map expected_summary (List.enumerate 1 three_records) =
     [(1, PyStr ''a.pdf'', ''2024-05-01T10:00:00'', PyInt 2, PyInt 10, PyInt 50, PyStr ''deu'', PyFloat 100),
      (2, PyStr ''b.pdf'', ''2024-05-02T09:30:00'', PyInt 0, PyInt 0, PyInt 0, PyStr ''eng'', PyFloat 0),
      (3, PyStr ''c.pdf'', ''2024-05-01T10:00:00'', PyInt 1, PyInt 0, PyInt 0, PyStr ''eng'', PyFloat 0)]"
  by (simp add: three_records_def expected_summary_def given_or_def)


text \<open>
  A numeric text in an integer column, an integral float in an integer column and an integer
  in a real column; a file name that is null; an integer that does not fit.
\<close>

lemma affinity_examples:
  "save_to_database simple_sqlite (Some empty_database) ''2024-05-01T10:00:00'' (PyStr ''a.pdf'') (PyStr ''text'')
     [''page_count'' \<mapsto> PyStr ''12'', ''word_count'' \<mapsto> PyFloat 7, ''quality_score'' \<mapsto> PyInt 90]
   = (True, Some \<lparr>extractions =
        [\<lparr>row_id = 1, filename = SqlText ''a.pdf'', timestamp = ''2024-05-01T10:00:00'',
          page_count = SqlInteger 12, word_count = SqlInteger 7, character_count = SqlInteger 0,
          language = SqlText ''eng'', extracted_text = SqlText ''text'', processing_time = SqlReal 0,
          quality_score = SqlReal 90\<rparr>], sequence = 1\<rparr>)"
  "save_to_database simple_sqlite (Some empty_database) ''2024-05-01T10:00:00'' PyNone (PyStr ''text'') Map.empty
   = (False, Some empty_database)"
  "save_to_database simple_sqlite (Some empty_database) ''2024-05-01T10:00:00'' (PyStr ''a.pdf'') (PyStr ''text'')
     [''word_count'' \<mapsto> PyInt (2 ^ 63)]
   = (False, Some empty_database)"
  by (simp_all add: save_to_database_def dict_get_def in_int64_def insert_extraction_def new_row_def
      next_id_def empty_database_def simple_sqlite_def real_to_integer_def)



section \<open>Properties of the entity extraction\<close>

lemma rmatch_advances:
  "st' \<in> set (rmatch r s st) \<Longrightarrow> fst st + min_len r \<le> fst st'"
proof (induction r s st arbitrary: st' rule: rmatch.induct)
  case (3 a b s st)
  then obtain m where m: "m \<in> set (rmatch a s st)" and st': "st' \<in> set (rmatch b s m)"
    by auto
  from "3.IH"(1) [OF m] "3.IH"(2) [OF m st'] show ?case by simp
next
  case (5 a s st)
  show ?case
  proof (cases "st' = st")
    case True
    then show ?thesis by simp
  next
    case False
    with "5.prems" obtain m where m: "m \<in> set (rmatch a s st)"
      and c: "fst st < fst m \<and> fst m \<le> length s" and st': "st' \<in> set (rmatch (Star a) s m)"
      by (subst (asm) rmatch.simps(5)) (auto split: if_splits)
    from "5.IH"(2) [OF m c st'] c show ?thesis by simp
  qed
qed (force split: if_splits)+

lemma rmatch_within:
  "st' \<in> set (rmatch r s st) \<Longrightarrow> fst st \<le> length s \<Longrightarrow> fst st' \<le> length s"
proof (induction r s st arbitrary: st' rule: rmatch.induct)
  case (3 a b s st)
  then obtain m where m: "m \<in> set (rmatch a s st)" and st': "st' \<in> set (rmatch b s m)"
    by auto
  from "3.IH"(1) [OF m "3.prems"(2)] "3.IH"(2) [OF m st'] show ?case by simp
next
  case (5 a s st)
  show ?case
  proof (cases "st' = st")
    case True
    then show ?thesis using "5.prems" by simp
  next
    case False
    with "5.prems" obtain m where m: "m \<in> set (rmatch a s st)"
      and c: "fst st < fst m \<and> fst m \<le> length s" and st': "st' \<in> set (rmatch (Star a) s m)"
      by (subst (asm) rmatch.simps(5)) (auto split: if_splits)
    from "5.IH"(2) [OF m c st'] c show ?thesis by simp
  qed
qed (force split: if_splits)+

lemma findall_from_Nil: "length s < i \<Longrightarrow> findall_from r s i = []"
  by (subst findall_from.simps) simp

lemma findall_from_skip:
  "\<not> length s < i \<Longrightarrow> rmatch r s (i, None) = [] \<Longrightarrow> findall_from r s i = findall_from r s (Suc i)"
  by (subst findall_from.simps) simp

lemma findall_from_hit:
  "\<not> length s < i \<Longrightarrow> rmatch r s (i, None) = x # xs \<Longrightarrow>
   findall_from r s i = (i, x) # findall_from r s (if i < fst x then fst x else Suc i)"
  by (subst findall_from.simps) simp

lemma findall_from_starts: "m \<in> set (findall_from r s i) \<Longrightarrow> i \<le> fst m"
proof (induction r s i rule: findall_from.induct)
  case (1 r s i)
  show ?case
  proof (cases "length s < i")
    case True
    with "1.prems" show ?thesis by (simp add: findall_from_Nil)
  next
    case False
    show ?thesis
    proof (cases "rmatch r s (i, None)")
      case Nil
      from "1.prems" have "m \<in> set (findall_from r s (Suc i))"
        by (simp add: findall_from_skip [OF False Nil])
      from "1.IH"(1) [OF False Nil this] show ?thesis by simp
    next
      case (Cons x xs)
      let ?next = "if i < fst x then fst x else Suc i"
      from "1.prems" have "m = (i, x) \<or> m \<in> set (findall_from r s ?next)"
        by (simp add: findall_from_hit [OF False Cons])
      then show ?thesis
      proof
        assume "m = (i, x)"
        then show ?thesis by simp
      next
        assume "m \<in> set (findall_from r s ?next)"
        from "1.IH"(2) [OF False Cons this] show ?thesis by (simp split: if_splits)
      qed
    qed
  qed
qed

lemma findall_from_in_order: "in_order_of_appearance (findall_from r s i)"
proof (induction r s i rule: findall_from.induct)
  case (1 r s i)
  show ?case
  proof (cases "length s < i")
    case True
    then show ?thesis by (simp add: in_order_of_appearance_def findall_from_Nil)
  next
    case False
    show ?thesis
    proof (cases "rmatch r s (i, None)")
      case Nil
      from "1.IH"(1) [OF False Nil] show ?thesis
        by (simp add: findall_from_skip [OF False Nil])
    next
      case (Cons x xs)
      let ?next = "if i < fst x then fst x else Suc i"
      have later: "\<forall>m \<in> set (findall_from r s ?next). i < fst m \<and> fst x \<le> fst m"
      proof
        fix m assume "m \<in> set (findall_from r s ?next)"
        then have "?next \<le> fst m" by (rule findall_from_starts)
        then show "i < fst m \<and> fst x \<le> fst m" by (simp split: if_splits)
      qed
      from "1.IH"(2) [OF False Cons] later show ?thesis
        by (simp add: findall_from_hit [OF False Cons] in_order_of_appearance_def)
    qed
  qed
qed

lemma min_len_email: "0 < min_len email_re"
  by code_simp

lemma min_len_phone: "0 < min_len phone_re"
  by code_simp

lemma min_len_date: "0 < min_len date_re"
  by code_simp

lemma min_len_amount: "0 < min_len amount_re"
  by code_simp

lemma lookup_emails: "extract_key_data txt ''Emails'' = capped 3 (findall email_re txt)"
  by (simp add: extract_key_data_def capped_def Let_def)

lemma lookup_phones: "extract_key_data txt ''Phones'' = capped 3 (findall phone_re txt)"
  by (simp add: extract_key_data_def capped_def Let_def)

lemma lookup_dates: "extract_key_data txt ''Dates'' = capped 3 (findall date_re txt)"
  by (simp add: extract_key_data_def capped_def Let_def)

lemma lookup_amounts: "extract_key_data txt ''Amounts'' = capped 5 (findall amount_re txt)"
  by (simp add: extract_key_data_def capped_def Let_def)

lemma extract_key_data_dom:
  "dom (extract_key_data txt) \<subseteq> {''Emails'', ''Phones'', ''Dates'', ''Amounts''}"
  by (simp add: extract_key_data_def Let_def dom_def) blast

lemma ex_emails: "findall email_re two_emails = [''john@example.com'', ''jane@test.org'']"
  by code_simp

lemma ex_phones: "findall phone_re two_emails = []"
  by code_simp

lemma ex_dates: "findall date_re two_emails = []"
  by code_simp

lemma ex_amounts: "findall amount_re two_emails = []"
  by code_simp

text \<open>
  C6: each category of the result is absent when its pattern has no match and otherwise holds
  the first 3 matches (emails, phones, dates) or the first 5 (amounts; the text of the
  group), in the order of \<^verbatim>\<open>re.findall\<close>, whose occurrences are in order of appearance in
  the text; no other category is present. On the text with the two addresses the result has
  the one category Emails, with the two addresses in that order.
\<close>

theorem extract_key_data_spec:
  "extract_key_data txt ''Emails'' = capped 3 (findall email_re txt)
   \<and> extract_key_data txt ''Phones'' = capped 3 (findall phone_re txt)
   \<and> extract_key_data txt ''Dates'' = capped 3 (findall date_re txt)
   \<and> extract_key_data txt ''Amounts'' = capped 5 (findall amount_re txt)
   \<and> dom (extract_key_data txt) \<subseteq> {''Emails'', ''Phones'', ''Dates'', ''Amounts''}
   \<and> findall r txt = map (match_text r txt) (findall_from r txt 0)
   \<and> in_order_of_appearance (findall_from r txt 0)
   \<and> extract_key_data two_emails = [''Emails'' \<mapsto> [''john@example.com'', ''jane@test.org'']]"
proof -
  have example: "extract_key_data two_emails = [''Emails'' \<mapsto> [''john@example.com'', ''jane@test.org'']]"
    by (simp add: extract_key_data_def Let_def ex_emails ex_phones ex_dates ex_amounts)
  have scan: "findall r txt = map (match_text r txt) (findall_from r txt 0)"
    by (simp add: findall_def)
  from lookup_emails lookup_phones lookup_dates lookup_amounts extract_key_data_dom scan
    findall_from_in_order example
  show ?thesis by (intro conjI)
qed

section \<open>Properties of the JSON export\<close>



































lemma parse_encoded_string:
  "encode_string s @ rest = dquote # concat (map escape_char s) @ dquote # rest"
  by (simp add: encode_string_def)
















lemma parse_literals:
  "parse_value (Suc n) (''null'' @ rest) = Some (JNull, rest)"
  "parse_value (Suc n) (''true'' @ rest) = Some (JBool True, rest)"
  "parse_value (Suc n) (''false'' @ rest) = Some (JBool False, rest)"
  by (simp_all add: dquote_def)







lemma need_pos: "0 < need v"
  by (cases v) simp_all






lemma pair_text:
  "encode_string k @ '': '' @ s = dquote # concat (map escape_char k) @ dquote # CHR '':'' # CHR '' '' # s"
  by (simp add: encode_string_def)











lemma small_evaluates:
  "loads (dumps (JDict [(''a'', JList [JInt (-7), JFloat ''1.5'']), (''b'', JStr (''x'' @ [newline]))]))
     = Some (JDict [(''a'', JList [JInt (-7), JFloat ''1.5'']), (''b'', JStr (''x'' @ [newline]))])"
  by code_simp

end
